theory Spec2Isabelle
  imports Complex_Main "HOL-Library.Word"
begin

section \<open>The interview chat widget: JavaScript values\<close>

text \<open>
  The component \<^verbatim>\<open>InterviewClient\<close> (src/src/components/InterviewClient.tsx) is a set of
  event handlers over React state and refs. Its inbound data comes from
  \<^verbatim>\<open>JSON.parse\<close> and is used untyped, so the model keeps the values of JavaScript as
  they are at run time: a property read on \<^verbatim>\<open>null\<close> or \<^verbatim>\<open>undefined\<close> throws a
  TypeError, a missing property reads as \<^verbatim>\<open>undefined\<close>, and a condition tests
  truthiness.

  Strings are lists of 8-bit characters (code units below 256); numbers are the finite
  numbers, of which the handlers only test whether they are zero.
\<close>

datatype jsval =
    JUndefined
  | JNull
  | JBool bool
  | JNum rat
  | JStr string
  | JArr "jsval list"
  | JObj "(string \<times> jsval) list"

text \<open>
  What a handler can throw: the SyntaxError of \<^verbatim>\<open>JSON.parse\<close>, the TypeError of a
  property read or a spread, the InvalidStateError of \<^verbatim>\<open>send\<close>, and the error event of
  a \<^verbatim>\<open>FileReader\<close>, with which \<open>blobToBase64\<close> rejects its promise.
\<close>

datatype error =
    SyntaxError
  | TypeError
  | InvalidStateError
  | ReaderErrorEvent

text \<open>The conversion to boolean of a condition (\<^verbatim>\<open>if (v)\<close>, \<^verbatim>\<open>a && b\<close>, \<^verbatim>\<open>a || b\<close>).\<close>

fun truthy :: "jsval \<Rightarrow> bool" where
  "truthy JUndefined = False"
| "truthy JNull = False"
| "truthy (JBool b) = b"
| "truthy (JNum n) = (n \<noteq> 0)"
| "truthy (JStr s) = (s \<noteq> [])"
| "truthy (JArr xs) = True"
| "truthy (JObj kvs) = True"

text \<open>
  \<^verbatim>\<open>v.k\<close>, for the property names this component reads (event, data, chat_items,
  chat_item, id, has_more, current_page): none of them is a property of a primitive, of
  an array or of \<^verbatim>\<open>Object.prototype\<close>, so only an object's own properties answer. An
  object lists each of its own properties once.
\<close>

fun get_prop :: "jsval \<Rightarrow> string \<Rightarrow> error + jsval" where
  "get_prop JUndefined k = Inl TypeError"
| "get_prop JNull k = Inl TypeError"
| "get_prop (JObj kvs) k = Inr (case map_of kvs k of None \<Rightarrow> JUndefined | Some v \<Rightarrow> v)"
| "get_prop v k = Inr JUndefined"

text \<open>A chain of property reads \<^verbatim>\<open>v.k1.k2\<close>, left to right, stopping at the first throw.\<close>

fun get_path :: "jsval \<Rightarrow> string list \<Rightarrow> error + jsval" where
  "get_path v [] = Inr v"
| "get_path v (k # ks) = (case get_prop v k of Inl e \<Rightarrow> Inl e | Inr w \<Rightarrow> get_path w ks)"

text \<open>
  The spread \<^verbatim>\<open>[...v]\<close> iterates \<open>v\<close>: an array gives its elements, a string its
  characters, and a value that is not iterable throws a TypeError.
\<close>

fun spread :: "jsval \<Rightarrow> error + jsval list" where
  "spread (JArr xs) = Inr xs"
| "spread (JStr s) = Inr (map (\<lambda>c. JStr [c]) s)"
| "spread v = Inl TypeError"

text \<open>
  \<^verbatim>\<open>String.prototype.trim\<close>: white space and line terminators are removed at both ends.
  Below code unit 256 these are TAB, LF, VT, FF, CR, SPACE and NBSP.
\<close>

definition js_whitespace :: "char \<Rightarrow> bool" where
  "js_whitespace c = (c \<in> set [CHR 0x09, CHR 0x0A, CHR 0x0B, CHR 0x0C, CHR 0x0D, CHR 0x20, CHR 0xA0])"

definition trim :: "string \<Rightarrow> string" where
  "trim s = rev (dropWhile js_whitespace (rev (dropWhile js_whitespace s)))"

text \<open>
  \<^verbatim>\<open>s.replace(pat, rep)\<close> with a string pattern: the first occurrence of \<open>pat\<close> in
  \<open>s\<close>, wherever it stands, is replaced (here \<open>rep\<close> has no \<^verbatim>\<open>$\<close> pattern).
\<close>

fun js_replace :: "string \<Rightarrow> string \<Rightarrow> string \<Rightarrow> string" where
  "js_replace pat rep [] = (if pat = [] then rep else [])"
| "js_replace pat rep (c # cs) =
     (if take (length pat) (c # cs) = pat then rep @ drop (length pat) (c # cs)
      else c # js_replace pat rep cs)"

section \<open>Browser objects the handlers use\<close>

text \<open>
  The socket a handler sees is its \<^verbatim>\<open>readyState\<close>. \<^verbatim>\<open>WebSocket.send\<close> throws an
  InvalidStateError on a socket that is still connecting; on an open socket it transmits,
  and on a closing or closed one it drops the data without an exception.
\<close>

datatype readyState = CONNECTING | OPEN | CLOSING | CLOSED

fun ws_send :: "readyState \<Rightarrow> error option" where
  "ws_send CONNECTING = Some InvalidStateError"
| "ws_send rs = None"

datatype trackState = Live | Ended

type_synonym mediaStream = "trackState list"

text \<open>\<^verbatim>\<open>stream.getTracks().forEach(track => track.stop())\<close>\<close>

definition stop_tracks :: "mediaStream \<Rightarrow> mediaStream" where
  "stop_tracks stream = map (\<lambda>track. Ended) stream"

datatype recordingState = Inactive | Recording | Paused

record blob =
  bytes :: "8 word list"
  btype :: string

text \<open>\<^verbatim>\<open>new Blob(parts, { type })\<close> concatenates the parts.\<close>

definition new_Blob :: "blob list \<Rightarrow> string \<Rightarrow> blob" where
  "new_Blob parts ty = \<lparr>bytes = concat (map bytes parts), btype = ty\<rparr>"

text \<open>Base64 (RFC 4648) with padding, as \<^verbatim>\<open>FileReader.readAsDataURL\<close> encodes the bytes.\<close>

definition b64_alphabet :: string where
  "b64_alphabet = ''ABCDEFGHIJKLMNOPQRSTUVWXYZabcdefghijklmnopqrstuvwxyz0123456789+/''"

definition b64_digit :: "nat \<Rightarrow> char" where
  "b64_digit n = b64_alphabet ! (n mod 64)"

fun base64 :: "8 word list \<Rightarrow> string" where
  "base64 [] = []"
| "base64 [a] =
     [b64_digit (unat a div 4), b64_digit (unat a mod 4 * 16), CHR ''='', CHR ''='']"
| "base64 [a, b] =
     [b64_digit (unat a div 4), b64_digit (unat a mod 4 * 16 + unat b div 16),
      b64_digit (unat b mod 16 * 4), CHR ''='']"
| "base64 (a # b # c # rest) =
     [b64_digit (unat a div 4), b64_digit (unat a mod 4 * 16 + unat b div 16),
      b64_digit (unat b mod 16 * 4 + unat c div 64), b64_digit (unat c mod 64)]
     @ base64 rest"

text \<open>The data URL of a blob that has a type: \<^verbatim>\<open>data:<type>;base64,<base64 of the bytes>\<close>.\<close>

definition readAsDataURL :: "blob \<Rightarrow> string" where
  "readAsDataURL b = ''data:'' @ btype b @ '';base64,'' @ base64 (bytes b)"

text \<open>
  How a read by the \<^verbatim>\<open>FileReader\<close> ends: with the result (the load event), or with
  the error event, which comes before the loadend event.
\<close>

datatype readerOutcome = Loaded | Failed

section \<open>The component: state, effects, results\<close>

text \<open>
  The \<^verbatim>\<open>useState\<close> cells and the \<^verbatim>\<open>useRef\<close> cells of the component. \<open>wsRef\<close> is
  \<open>None\<close> for \<^verbatim>\<open>null\<close> and otherwise the ready state of the socket it refers to. A
  state cell holds whatever value the handler stored, also when the server sent a value
  of another type than the TypeScript annotation says.
\<close>

record state =
  status :: string
  messages :: jsval
  userInput :: string
  isRecording :: bool
  currentPage :: jsval
  hasMore :: jsval
  wsRef :: "readyState option"
  mediaRecorderRef :: "recordingState option"
  audioChunksRef :: "blob list"
  currentChatItemIdRef :: jsval

definition initial_state :: state where
  "initial_state =
     \<lparr>status = ''Disconnected'', messages = JArr [], userInput = [], isRecording = False,
      currentPage = JNum 1, hasMore = JBool False, wsRef = None, mediaRecorderRef = None,
      audioChunksRef = [], currentChatItemIdRef = JNull\<rparr>"

text \<open>
  What a handler does to the outside: \<open>WsSend v\<close> is the call
  \<^verbatim>\<open>send(JSON.stringify(v))\<close> on the socket, \<open>SetTimeout cb ms\<close> the call
  \<^verbatim>\<open>setTimeout(cb, ms)\<close>, \<open>ConsoleError m\<close> a line on the console. \<open>RenderError e\<close>
  is the exception of a state updater that the handler queued: React runs the updater at
  the next render, after the handler has ended, and raises \<open>e\<close> there.
\<close>

datatype callback = ConnectWebSocket

datatype effect =
    WsSend jsval
  | SetTimeout callback nat
  | ConsoleError string
  | RenderError error

text \<open>
  A handler run ends with the component in state \<open>post\<close>, having made the calls
  \<open>effects\<close>, and either returns (\<open>thrown = None\<close>) or throws an exception that
  nothing in the component catches.
\<close>

record result =
  post :: state
  effects :: "effect list"
  thrown :: "error option"

definition returned :: "state \<Rightarrow> effect list \<Rightarrow> result" where
  "returned s es = \<lparr>post = s, effects = es, thrown = None\<rparr>"

definition throws :: "error \<Rightarrow> state \<Rightarrow> effect list \<Rightarrow> result" where
  "throws e s es = \<lparr>post = s, effects = es, thrown = Some e\<rparr>"

section \<open>Connection lifecycle\<close>

text \<open>
  \<^verbatim>\<open>connectWebSocket\<close>: the constructor either gives a socket in state CONNECTING, which
  is stored in \<open>wsRef\<close>, or throws (a malformed URL), which the \<^verbatim>\<open>catch\<close> turns into a
  console line and the status 'Connection failed'.
\<close>

definition connectWebSocket :: "bool \<Rightarrow> state \<Rightarrow> result" where
  "connectWebSocket constructed s =
     (if constructed then returned (s\<lparr>wsRef := Some CONNECTING\<rparr>) []
      else returned (s\<lparr>status := ''Connection failed''\<rparr>) [ConsoleError ''Failed to connect:''])"



text \<open>\<^verbatim>\<open>ws.onclose\<close>, with the close code of the event.\<close>

definition onclose :: "nat \<Rightarrow> state \<Rightarrow> result" where
  "onclose code s =
     (if code \<noteq> 1000 then returned (s\<lparr>status := ''Disconnected''\<rparr>) [SetTimeout ConnectWebSocket 3000]
      else returned (s\<lparr>status := ''Disconnected''\<rparr>) [])"

text \<open>\<^verbatim>\<open>ws.onerror\<close>\<close>

definition onerror :: "state \<Rightarrow> result" where
  "onerror s = returned (s\<lparr>status := ''Error connecting''\<rparr>) [ConsoleError ''WebSocket error:'']"

text \<open>The function a timer runs when it fires.\<close>

fun run_callback :: "callback \<Rightarrow> bool \<Rightarrow> state \<Rightarrow> result" where
  "run_callback ConnectWebSocket constructed s = connectWebSocket constructed s"

text \<open>
  \<^verbatim>\<open>App\<close> (src/src/App.tsx) computes the prop \<open>accessToken\<close> as
  \<^verbatim>\<open>env || localStorage.getItem('accessToken') || undefined\<close>.
\<close>

definition js_or :: "jsval \<Rightarrow> jsval \<Rightarrow> jsval" where
  "js_or a b = (if truthy a then a else b)"

definition App_accessToken :: "jsval \<Rightarrow> jsval \<Rightarrow> jsval" where
  "App_accessToken env stored = js_or (js_or env stored) JUndefined"

section \<open>Message dispatch\<close>

text \<open>
  \<^verbatim>\<open>handleMessage\<close>. The argument \<open>parsed\<close> is how \<^verbatim>\<open>JSON.parse(event.data)\<close> ended:
  \<open>None\<close> when it threw a SyntaxError, otherwise the value.

  In the branch of the two "new item" events, line 85 hands React the updater
  \<^verbatim>\<open>prev => [...prev, data.data.chat_item]\<close> and line 86 assigns the ref. The updater is
  queued at the call and React applies it to the list also when line 86 then throws, so
  the two lines succeed or fail each on its own: \<open>new_messages\<close> is what the updater
  computes, \<open>new_id\<close> what line 86 reads. Only line 86 can make the handler throw; an
  updater that throws leaves the list as it was and is a \<open>RenderError\<close>, with the
  handler returned and the ref assigned.
\<close>

definition new_messages :: "jsval \<Rightarrow> jsval \<Rightarrow> error + jsval" where
  "new_messages prev data =
     (case spread prev of
        Inl e \<Rightarrow> Inl e
      | Inr xs \<Rightarrow>
         (case get_path data [''data'', ''chat_item''] of
            Inl e \<Rightarrow> Inl e
          | Inr item \<Rightarrow> Inr (JArr (xs @ [item]))))"

definition new_id :: "jsval \<Rightarrow> error + jsval" where
  "new_id data = get_path data [''data'', ''chat_item'', ''id'']"

definition new_item :: "jsval \<Rightarrow> state \<Rightarrow> result" where
  "new_item data s =
     (let s1 = (case new_messages (messages s) data of Inl e \<Rightarrow> s | Inr m \<Rightarrow> s\<lparr>messages := m\<rparr>);
          queued = (case new_messages (messages s) data of Inl e \<Rightarrow> [RenderError e] | Inr m \<Rightarrow> [])
      in case new_id data of
           Inl e \<Rightarrow> throws e s1 queued
         | Inr i \<Rightarrow> returned (s1\<lparr>currentChatItemIdRef := i\<rparr>) queued)"

text \<open>
  The branch of the bulk load. Under the guard \<open>chat_items\<close> is truthy, so the three
  property reads on it cannot throw.
\<close>

definition initial_chat_data :: "jsval \<Rightarrow> state \<Rightarrow> result" where
  "initial_chat_data data s =
     (case get_path data [''data'', ''chat_items''] of
        Inl e \<Rightarrow> throws e s []
      | Inr chat_items \<Rightarrow>
         if truthy chat_items then
           (case get_prop chat_items ''chat_items'' of
              Inl e \<Rightarrow> throws e s []
            | Inr items \<Rightarrow>
               (case get_prop chat_items ''has_more'' of
                  Inl e \<Rightarrow> throws e s []
                | Inr has_more \<Rightarrow>
                   (case get_prop chat_items ''current_page'' of
                      Inl e \<Rightarrow> throws e s []
                    | Inr page \<Rightarrow>
                       returned (s\<lparr>messages := items, hasMore := has_more, currentPage := page\<rparr>) [])))
         else returned s [])"

definition handleMessage :: "jsval option \<Rightarrow> state \<Rightarrow> result" where
  "handleMessage parsed s =
     (case parsed of
        None \<Rightarrow> throws SyntaxError s []
      | Some data \<Rightarrow>
         (case get_prop data ''event'' of
            Inl e \<Rightarrow> throws e s []
          | Inr event \<Rightarrow>
             if event = JStr ''initial_chat_data'' then initial_chat_data data s
             else if event = JStr ''user_response_processed'' \<or> event = JStr ''new_question''
             then new_item data s
             else returned s []))"

section \<open>Response submission\<close>

definition submit_user_response :: "jsval \<Rightarrow> string \<Rightarrow> jsval" where
  "submit_user_response chat_item_id response =
     JObj [(''action'', JStr ''submit_user_response''),
           (''payload'', JObj [(''chat_item_id'', chat_item_id), (''response'', JStr response)])]"

text \<open>\<^verbatim>\<open>sendTextResponse\<close>: the guard lets the send through on an OPEN socket only.\<close>

definition sendTextResponse :: "state \<Rightarrow> result" where
  "sendTextResponse s =
     (if trim (userInput s) \<noteq> [] \<and> truthy (currentChatItemIdRef s) \<and> wsRef s = Some OPEN then
        (case ws_send OPEN of
           Some e \<Rightarrow> throws e s [WsSend (submit_user_response (currentChatItemIdRef s) (trim (userInput s)))]
         | None \<Rightarrow>
            returned (s\<lparr>userInput := []\<rparr>)
              [WsSend (submit_user_response (currentChatItemIdRef s) (trim (userInput s)))])
      else returned s [])"

text \<open>\<^verbatim>\<open>mediaRecorder.ondataavailable\<close>\<close>

definition ondataavailable :: "blob \<Rightarrow> state \<Rightarrow> result" where
  "ondataavailable chunk s = returned (s\<lparr>audioChunksRef := audioChunksRef s @ [chunk]\<rparr>) []"

text \<open>
  \<^verbatim>\<open>blobToBase64\<close>: the promise resolves with the data URL after
  \<^verbatim>\<open>replace('data:audio/wav;base64,', '')\<close>, or is rejected with the reader's error
  event.
\<close>

definition blobToBase64 :: "readerOutcome \<Rightarrow> blob \<Rightarrow> error + string" where
  "blobToBase64 outcome b =
     (case outcome of
        Failed \<Rightarrow> Inl ReaderErrorEvent
      | Loaded \<Rightarrow> Inr (js_replace ''data:audio/wav;base64,'' [] (readAsDataURL b)))"

text \<open>
  \<^verbatim>\<open>mediaRecorder.onstop\<close>, with the \<open>stream\<close> of its closure, which it returns as the
  handler leaves it. The handler is suspended at its \<^verbatim>\<open>await\<close>: \<open>s0\<close> is the state
  when the stop event fires, where the chunks are read, and \<open>s\<close> the state when the
  promise settles, where the refs are read. The \<^verbatim>\<open>await\<close> of a rejected promise
  throws, and so may \<open>send\<close>; the handler has no \<^verbatim>\<open>try\<close>, so either ends it there.
\<close>

definition onstop :: "readerOutcome \<Rightarrow> mediaStream \<Rightarrow> state \<Rightarrow> state \<Rightarrow> result \<times> mediaStream" where
  "onstop outcome stream s0 s =
     (let audioBlob = new_Blob (audioChunksRef s0) ''audio/wav'' in
      case blobToBase64 outcome audioBlob of
        Inl e \<Rightarrow> (throws e s [], stream)
      | Inr base64String \<Rightarrow>
         (let envelope = submit_user_response (currentChatItemIdRef s)
                           (''data:audio/wav;base64,'' @ base64String) in
          case wsRef s of
            None \<Rightarrow> (returned s [], stop_tracks stream)
          | Some rs \<Rightarrow>
             (case ws_send rs of
                Some e \<Rightarrow> (throws e s [WsSend envelope], stream)
              | None \<Rightarrow> (returned s [WsSend envelope], stop_tracks stream))))"

text \<open>The fixed prefix of the audio responses, which both literals above spell out.\<close>

definition audio_prefix :: string where
  "audio_prefix = ''data:audio/wav;base64,''"

section \<open>Auxiliary facts\<close>

lemma get_path_snoc:
  "get_path v (ks @ [k]) = (case get_path v ks of Inl e \<Rightarrow> Inl e | Inr w \<Rightarrow> get_prop w k)"
  by (induction ks arbitrary: v) (auto split: sum.splits)

lemma get_prop_truthy: "truthy v \<Longrightarrow> \<exists>w. get_prop v k = Inr w"
  by (cases v) auto

lemma new_id_eq:
  assumes "get_path data [''data'', ''chat_item''] = Inr item"
  shows "new_id data = get_prop item ''id''"
proof -
  have "get_path data ([''data'', ''chat_item''] @ [''id'']) = get_prop item ''id''"
    unfolding get_path_snoc using assms by simp
  then show ?thesis by (simp add: new_id_def)
qed

lemma new_item_appends_aux:
  assumes "get_path data [''data'', ''chat_item''] = Inr item"
      and "get_prop item ''id'' = Inr i"
      and "messages s = JArr xs"
  shows "new_item data s =
     \<lparr>post = s\<lparr>messages := JArr (xs @ [item]), currentChatItemIdRef := i\<rparr>,
      effects = [], thrown = None\<rparr>"
proof -
  have id: "new_id data = Inr i"
    using assms(1,2) by (simp add: new_id_eq)
  have msgs: "new_messages (messages s) data = Inr (JArr (xs @ [item]))"
    using assms(1,3) by (simp add: new_messages_def)
  show ?thesis
    by (simp add: new_item_def id msgs returned_def)
qed

text \<open>The branch of the new item reads nothing of the envelope but its \<open>data\<close>.\<close>

lemma new_item_cong:
  assumes "get_prop data' ''data'' = get_prop data ''data''"
  shows "new_item data' s = new_item data s"
proof -
  have "get_path data' [''data'', ''chat_item''] = get_path data [''data'', ''chat_item'']"
    and "get_path data' [''data'', ''chat_item'', ''id''] = get_path data [''data'', ''chat_item'', ''id'']"
    using assms by simp_all
  then have "new_id data' = new_id data"
    and "new_messages (messages s) data' = new_messages (messages s) data"
    by (simp_all only: new_id_def new_messages_def)
  then show ?thesis by (simp only: new_item_def)
qed

lemma handleMessage_new_item:
  assumes "get_prop data ''event'' = Inr (JStr tag)"
      and "tag = ''new_question'' \<or> tag = ''user_response_processed''"
  shows "handleMessage (Some data) s = new_item data s"
  using assms by (auto simp add: handleMessage_def)

text \<open>Only a socket that is still connecting makes \<open>send\<close> throw.\<close>

lemma ws_send_throws: "ws_send rs = Some e \<longleftrightarrow> rs = CONNECTING \<and> e = InvalidStateError"
  by (cases rs) auto

lemma ws_send_returns: "ws_send rs = None \<longleftrightarrow> rs \<noteq> CONNECTING"
  by (cases rs) auto

text \<open>The pattern of \<open>replace\<close> found at the very start of the string.\<close>

lemma js_replace_prefix: "js_replace pat rep (pat @ t) = rep @ t"
proof (cases "pat @ t")
  case Nil
  then show ?thesis by simp
next
  case (Cons a list)
  have "take (length pat) (a # list) = pat" "drop (length pat) (a # list) = t"
    using Cons [symmetric] by simp_all
  then show ?thesis using Cons by simp
qed

lemma readAsDataURL_wav:
  "readAsDataURL (new_Blob parts ''audio/wav'') = audio_prefix @ base64 (concat (map bytes parts))"
  by (simp add: readAsDataURL_def new_Blob_def audio_prefix_def)

lemma blobToBase64_Loaded:
  "blobToBase64 Loaded (new_Blob parts ''audio/wav'') = Inr (base64 (concat (map bytes parts)))"
proof -
  have "js_replace audio_prefix [] (readAsDataURL (new_Blob parts ''audio/wav''))
          = base64 (concat (map bytes parts))"
    by (simp only: readAsDataURL_wav js_replace_prefix append_Nil)
  then show ?thesis
    by (simp add: blobToBase64_def audio_prefix_def)
qed

lemma onstop_Loaded:
  "onstop Loaded stream s0 s =
     (let envelope = submit_user_response (currentChatItemIdRef s)
                       (audio_prefix @ base64 (concat (map bytes (audioChunksRef s0))))
      in case wsRef s of
           None \<Rightarrow> (returned s [], stop_tracks stream)
         | Some rs \<Rightarrow>
            (case ws_send rs of
               Some e \<Rightarrow> (throws e s [WsSend envelope], stream)
             | None \<Rightarrow> (returned s [WsSend envelope], stop_tracks stream)))"
  by (simp add: onstop_def blobToBase64_Loaded audio_prefix_def)

lemma onstop_Failed: "onstop Failed stream s0 s = (throws ReaderErrorEvent s [], stream)"
  by (simp add: onstop_def blobToBase64_def)

lemma onstop_Loaded_effects:
  "effects (fst (onstop Loaded stream s0 s)) =
     (case wsRef s of
        None \<Rightarrow> []
      | Some rs \<Rightarrow>
         [WsSend (submit_user_response (currentChatItemIdRef s)
            (audio_prefix @ base64 (concat (map bytes (audioChunksRef s0)))))])"
proof (cases "wsRef s")
  case None
  then show ?thesis by (simp add: onstop_Loaded returned_def)
next
  case (Some rs)
  then show ?thesis
    by (cases rs) (simp_all add: onstop_Loaded returned_def throws_def)
qed

text \<open>What a run of the stop handler leaves of the stream.\<close>

lemma onstop_releases_tracks:
  "snd (onstop outcome stream s0 s) =
     (if outcome = Loaded \<and> wsRef s \<noteq> Some CONNECTING then replicate (length stream) Ended
      else stream)"
proof (cases outcome)
  case Loaded
  show ?thesis
  proof (cases "wsRef s")
    case None
    with Loaded show ?thesis
      by (simp add: onstop_Loaded stop_tracks_def map_replicate_const)
  next
    case (Some rs)
    with Loaded show ?thesis
      by (cases rs) (simp_all add: onstop_Loaded stop_tracks_def map_replicate_const)
  qed
next
  case Failed
  then show ?thesis by (simp add: onstop_Failed)
qed

text \<open>
  The token \<^verbatim>\<open>App\<close> passes is \<^verbatim>\<open>undefined\<close> or truthy: for it, "a token is present" and
  the test \<^verbatim>\<open>if (accessToken)\<close> of \<open>onopen\<close> say the same.
\<close>

lemma App_accessToken_present:
  "truthy (App_accessToken env stored) \<longleftrightarrow> App_accessToken env stored \<noteq> JUndefined"
  by (auto simp add: App_accessToken_def js_or_def)

text \<open>A bulk load whose \<open>chat_items\<close> object has no list leaves the message list \<^verbatim>\<open>undefined\<close>.\<close>

lemma initial_chat_data_without_list:
  "messages (post (handleMessage
      (Some (JObj [(''event'', JStr ''initial_chat_data''),
                   (''data'', JObj [(''chat_items'', JObj [])])]))
      initial_state)) = JUndefined"
  by (simp add: handleMessage_def initial_chat_data_def returned_def)

text \<open>A reconnect timer that fires leaves a socket that is still connecting in \<open>wsRef\<close>.\<close>

lemma reconnect_is_connecting:
  "wsRef (post (run_callback ConnectWebSocket True s)) = Some CONNECTING"
  by (simp add: connectWebSocket_def returned_def)

text \<open>The encoder on 'Man', 'Ma' and 'M'.\<close>

lemma base64_Man:
  "base64 [0x4d, 0x61, 0x6e] = ''TWFu''"
  "base64 [0x4d, 0x61] = ''TWE=''"
  "base64 [0x4d] = ''TQ==''"
  by (simp_all add: b64_digit_def b64_alphabet_def)

lemma trim_hi: "trim '' hi '' = ''hi''"
  by (simp add: trim_def js_whitespace_def)

section \<open>Connection lifecycle: the claims\<close>

text \<open>
  C5: on a close event whose code is not 1000, \<open>onclose\<close> schedules exactly one timer,
  for \<^verbatim>\<open>connectWebSocket\<close> after 3000 ms; on a close event with code 1000 it schedules
  none; in both cases the status becomes 'Disconnected', and nothing else of the state
  changes.
\<close>

theorem onclose_reconnect:
  "(code \<noteq> 1000 \<longrightarrow> effects (onclose code s) = [SetTimeout ConnectWebSocket 3000])
   \<and> (code = 1000 \<longrightarrow> effects (onclose code s) = [])
   \<and> post (onclose code s) = s\<lparr>status := ''Disconnected''\<rparr>
   \<and> thrown (onclose code s) = None"
  by (simp add: onclose_def returned_def)

text \<open>An abnormal closure (1006) and the normal closure (1000) of a connected component.\<close>

theorem onclose_reconnect_witness:
  "effects (onclose 1006 (initial_state\<lparr>status := ''Connected''\<rparr>)) = [SetTimeout ConnectWebSocket 3000]
   \<and> status (post (onclose 1006 (initial_state\<lparr>status := ''Connected''\<rparr>))) = ''Disconnected''
   \<and> effects (onclose 1000 (initial_state\<lparr>status := ''Connected''\<rparr>)) = []
   \<and> status (post (onclose 1000 (initial_state\<lparr>status := ''Connected''\<rparr>))) = ''Disconnected''"
  using onclose_reconnect [of 1006 "initial_state\<lparr>status := ''Connected''\<rparr>"]
    onclose_reconnect [of 1000 "initial_state\<lparr>status := ''Connected''\<rparr>"]
  by simp



section \<open>Message dispatch: the claims\<close>

text \<open>
  C8: when the data of an inbound message is not valid JSON, so that
  \<^verbatim>\<open>JSON.parse\<close> throws, \<open>handleMessage\<close> ends with that exception uncaught, the
  state as it was and nothing sent.
\<close>

theorem handleMessage_invalid_json:
  "handleMessage None s = \<lparr>post = s, effects = [], thrown = Some SyntaxError\<rparr>"
  by (simp add: handleMessage_def throws_def)

theorem handleMessage_invalid_json_witness:
  "thrown (handleMessage None initial_state) = Some SyntaxError
   \<and> post (handleMessage None initial_state) = initial_state"
  using handleMessage_invalid_json [of initial_state] by simp

text \<open>
  C2, as the code has it: for an inbound envelope whose event tag is 'initial_chat_data'
  and whose payload has a truthy \<open>chat_items\<close>, \<open>handleMessage\<close> replaces the message
  list by that object's \<open>chat_items\<close> and sets \<open>hasMore\<close> and \<open>currentPage\<close> to its
  \<open>has_more\<close> and \<open>current_page\<close>; when the payload's \<open>chat_items\<close> is absent, null or
  otherwise falsy, the guard of line 79 skips the three assignments and the state stays
  as it was.
\<close>

theorem initial_chat_data_replaces:
  assumes "get_prop data ''event'' = Inr (JStr ''initial_chat_data'')"
      and "get_path data [''data'', ''chat_items''] = Inr chat_items"
  shows "(truthy chat_items \<longrightarrow>
            get_prop chat_items ''chat_items'' = Inr items \<longrightarrow>
            get_prop chat_items ''has_more'' = Inr has_more \<longrightarrow>
            get_prop chat_items ''current_page'' = Inr page \<longrightarrow>
            handleMessage (Some data) s =
              \<lparr>post = s\<lparr>messages := items, hasMore := has_more, currentPage := page\<rparr>,
               effects = [], thrown = None\<rparr>)
         \<and> (\<not> truthy chat_items \<longrightarrow>
            handleMessage (Some data) s = \<lparr>post = s, effects = [], thrown = None\<rparr>)"
proof -
  have "handleMessage (Some data) s = initial_chat_data data s"
    using assms(1) by (simp add: handleMessage_def)
  then show ?thesis
    using assms(2) by (simp add: initial_chat_data_def returned_def)
qed

text \<open>
  The claim as it was stated, for every envelope with the tag, fails on an envelope whose
  payload has \<open>chat_items\<close> null: the list that held the item q1 is not replaced, and
  \<open>hasMore\<close> and \<open>currentPage\<close> keep their values.
\<close>

theorem initial_chat_data_guard_counterexample:
  "handleMessage
     (Some (JObj [(''event'', JStr ''initial_chat_data''), (''data'', JObj [(''chat_items'', JNull)])]))
     (initial_state\<lparr>messages := JArr [JObj [(''id'', JStr ''q1'')]], currentPage := JNum 3,
                    hasMore := JBool True\<rparr>)
   = \<lparr>post = initial_state\<lparr>messages := JArr [JObj [(''id'', JStr ''q1'')]], currentPage := JNum 3,
                           hasMore := JBool True\<rparr>,
      effects = [], thrown = None\<rparr>"
  by (simp add: handleMessage_def initial_chat_data_def returned_def)

text \<open>A first page of one item that replaces a list of another, and a payload without \<open>chat_items\<close>.\<close>

theorem initial_chat_data_replaces_witness:
  "handleMessage
     (Some (JObj [(''event'', JStr ''initial_chat_data''),
                  (''data'', JObj [(''chat_items'',
                     JObj [(''chat_items'', JArr [JObj [(''id'', JStr ''q7'')]]),
                           (''has_more'', JBool True), (''current_page'', JNum 2)])])]))
     (initial_state\<lparr>messages := JArr [JObj [(''id'', JStr ''q1'')]]\<rparr>)
   = \<lparr>post = initial_state\<lparr>messages := JArr [JObj [(''id'', JStr ''q7'')]],
                           hasMore := JBool True, currentPage := JNum 2\<rparr>,
      effects = [], thrown = None\<rparr>
   \<and> handleMessage
     (Some (JObj [(''event'', JStr ''initial_chat_data''), (''data'', JObj [])]))
     (initial_state\<lparr>messages := JArr [JObj [(''id'', JStr ''q1'')]]\<rparr>)
   = \<lparr>post = initial_state\<lparr>messages := JArr [JObj [(''id'', JStr ''q1'')]]\<rparr>,
      effects = [], thrown = None\<rparr>"
  using initial_chat_data_replaces
    [of "JObj [(''event'', JStr ''initial_chat_data''),
               (''data'', JObj [(''chat_items'',
                  JObj [(''chat_items'', JArr [JObj [(''id'', JStr ''q7'')]]),
                        (''has_more'', JBool True), (''current_page'', JNum 2)])])]"
        "JObj [(''chat_items'', JArr [JObj [(''id'', JStr ''q7'')]]),
               (''has_more'', JBool True), (''current_page'', JNum 2)]"
        "JArr [JObj [(''id'', JStr ''q7'')]]" "JBool True" "JNum 2"
        "initial_state\<lparr>messages := JArr [JObj [(''id'', JStr ''q1'')]]\<rparr>"]
    initial_chat_data_replaces
    [of "JObj [(''event'', JStr ''initial_chat_data''), (''data'', JObj [])]" JUndefined
        _ _ _ "initial_state\<lparr>messages := JArr [JObj [(''id'', JStr ''q1'')]]\<rparr>"]
  by simp

text \<open>
  C3, as the code has it: for an inbound envelope whose event tag is 'new_question' or
  'user_response_processed' and whose payload carries a \<open>chat_item\<close> (neither null nor
  undefined), handled while the message list is an array \<open>xs\<close>, \<open>handleMessage\<close>
  appends that one item to the end of the list, leaves the items before it as they were,
  and overwrites the correlation id with the item's \<open>id\<close>; an envelope with the other
  of the two tags and the same payload gives the same result.
\<close>

theorem new_item_appends:
  assumes "get_prop data ''event'' = Inr (JStr tag)"
      and "tag = ''new_question'' \<or> tag = ''user_response_processed''"
      and "get_path data [''data'', ''chat_item''] = Inr item"
      and "get_prop item ''id'' = Inr i"
      and "messages s = JArr xs"
  shows "handleMessage (Some data) s =
           \<lparr>post = s\<lparr>messages := JArr (xs @ [item]), currentChatItemIdRef := i\<rparr>,
            effects = [], thrown = None\<rparr>
         \<and> (get_prop data' ''event'' = Inr (JStr tag') \<longrightarrow>
            tag' = ''new_question'' \<or> tag' = ''user_response_processed'' \<longrightarrow>
            get_prop data' ''data'' = get_prop data ''data'' \<longrightarrow>
            handleMessage (Some data') s = handleMessage (Some data) s)"
proof -
  have "handleMessage (Some data) s = new_item data s"
    using assms(1,2) by (rule handleMessage_new_item)
  moreover have "handleMessage (Some data') s = new_item data s"
    if "get_prop data' ''event'' = Inr (JStr tag')"
       "tag' = ''new_question'' \<or> tag' = ''user_response_processed''"
       "get_prop data' ''data'' = get_prop data ''data''"
    using handleMessage_new_item [OF that(1,2)] new_item_cong [OF that(3)] by simp
  ultimately show ?thesis
    using new_item_appends_aux [OF assms(3,4,5)] by simp
qed

text \<open>
  The claim as it was stated, for every envelope with one of the two tags, fails twice. On
  a payload without \<open>chat_item\<close> the list gets \<^verbatim>\<open>undefined\<close> appended, line 86 throws
  a TypeError and the correlation id q1 is not overwritten. And when an earlier
  initial_chat_data whose \<open>chat_items\<close> had no list has left the message list
  \<^verbatim>\<open>undefined\<close>, a well-formed new question appends nothing: the handler returns with the
  ref assigned, and the spread of the updater throws at render.
\<close>

theorem new_item_counterexample:
  "handleMessage
     (Some (JObj [(''event'', JStr ''new_question''), (''data'', JObj [])]))
     (initial_state\<lparr>messages := JArr [JObj [(''id'', JStr ''q1'')]], currentChatItemIdRef := JStr ''q1''\<rparr>)
   = \<lparr>post = initial_state\<lparr>messages := JArr [JObj [(''id'', JStr ''q1'')], JUndefined],
                           currentChatItemIdRef := JStr ''q1''\<rparr>,
      effects = [], thrown = Some TypeError\<rparr>
   \<and> handleMessage
     (Some (JObj [(''event'', JStr ''new_question''),
                  (''data'', JObj [(''chat_item'', JObj [(''id'', JStr ''q7'')])])]))
     (initial_state\<lparr>messages := JUndefined\<rparr>)
   = \<lparr>post = initial_state\<lparr>messages := JUndefined, currentChatItemIdRef := JStr ''q7''\<rparr>,
      effects = [RenderError TypeError], thrown = None\<rparr>"
  by (simp add: handleMessage_def new_item_def new_id_def new_messages_def returned_def throws_def)

text \<open>The item q7 arrives as a new question after q1, and as a processed response.\<close>

theorem new_item_appends_witness:
  "handleMessage
     (Some (JObj [(''event'', JStr ''new_question''),
                  (''data'', JObj [(''chat_item'', JObj [(''id'', JStr ''q7'')])])]))
     (initial_state\<lparr>messages := JArr [JObj [(''id'', JStr ''q1'')]]\<rparr>)
   = \<lparr>post = initial_state\<lparr>messages := JArr [JObj [(''id'', JStr ''q1'')], JObj [(''id'', JStr ''q7'')]],
                           currentChatItemIdRef := JStr ''q7''\<rparr>,
      effects = [], thrown = None\<rparr>
   \<and> handleMessage
     (Some (JObj [(''event'', JStr ''user_response_processed''),
                  (''data'', JObj [(''chat_item'', JObj [(''id'', JStr ''q7'')])])]))
     (initial_state\<lparr>messages := JArr [JObj [(''id'', JStr ''q1'')]]\<rparr>)
   = handleMessage
     (Some (JObj [(''event'', JStr ''new_question''),
                  (''data'', JObj [(''chat_item'', JObj [(''id'', JStr ''q7'')])])]))
     (initial_state\<lparr>messages := JArr [JObj [(''id'', JStr ''q1'')]]\<rparr>)"
  using new_item_appends
    [of "JObj [(''event'', JStr ''new_question''),
               (''data'', JObj [(''chat_item'', JObj [(''id'', JStr ''q7'')])])]"
        "''new_question''" "JObj [(''id'', JStr ''q7'')]" "JStr ''q7''"
        "initial_state\<lparr>messages := JArr [JObj [(''id'', JStr ''q1'')]]\<rparr>"
        "[JObj [(''id'', JStr ''q1'')]]"
        "JObj [(''event'', JStr ''user_response_processed''),
               (''data'', JObj [(''chat_item'', JObj [(''id'', JStr ''q7'')])])]"
        "''user_response_processed''"]
  by simp

text \<open>
  C6: for a well-formed inbound envelope (the parsed value has an \<open>event\<close> to read)
  whose event tag is none of 'initial_chat_data', 'user_response_processed' and
  'new_question', \<open>handleMessage\<close> returns with the whole component state as it was
  and nothing sent.
\<close>

theorem handleMessage_unknown_event:
  assumes "get_prop data ''event'' = Inr event"
      and "event \<noteq> JStr ''initial_chat_data''"
      and "event \<noteq> JStr ''user_response_processed''"
      and "event \<noteq> JStr ''new_question''"
  shows "handleMessage (Some data) s = \<lparr>post = s, effects = [], thrown = None\<rparr>"
  using assms by (simp add: handleMessage_def returned_def)

text \<open>An envelope with the tag 'pong'.\<close>

theorem handleMessage_unknown_event_witness:
  "handleMessage (Some (JObj [(''event'', JStr ''pong''), (''data'', JObj [])]))
     (initial_state\<lparr>status := ''Connected''\<rparr>)
   = \<lparr>post = initial_state\<lparr>status := ''Connected''\<rparr>, effects = [], thrown = None\<rparr>"
  using handleMessage_unknown_event
    [of "JObj [(''event'', JStr ''pong''), (''data'', JObj [])]" "JStr ''pong''"
        "initial_state\<lparr>status := ''Connected''\<rparr>"]
  by simp

section \<open>Response submission: the claims\<close>

text \<open>
  C4: \<open>sendTextResponse\<close> sends the submit_user_response envelope, with the current
  correlation id and the trimmed input as response, and clears the input, if and only if
  the trimmed input is not empty, a correlation id exists (the ref holds a truthy value,
  which is how the guard reads it: not null and not the empty string) and the socket is
  open; otherwise it sends nothing and leaves the whole state as it was.
\<close>

theorem sendTextResponse_guard:
  "(trim (userInput s) \<noteq> [] \<and> truthy (currentChatItemIdRef s) \<and> wsRef s = Some OPEN \<longrightarrow>
      sendTextResponse s =
        \<lparr>post = s\<lparr>userInput := []\<rparr>,
         effects = [WsSend (submit_user_response (currentChatItemIdRef s) (trim (userInput s)))],
         thrown = None\<rparr>)
   \<and> (\<not> (trim (userInput s) \<noteq> [] \<and> truthy (currentChatItemIdRef s) \<and> wsRef s = Some OPEN) \<longrightarrow>
      sendTextResponse s = \<lparr>post = s, effects = [], thrown = None\<rparr>)"
  by (simp add: sendTextResponse_def returned_def)

text \<open>The input ' hi ' for the question q1 on an open socket, and the same with no question yet.\<close>

theorem sendTextResponse_guard_witness:
  "sendTextResponse
     (initial_state\<lparr>userInput := '' hi '', wsRef := Some OPEN, currentChatItemIdRef := JStr ''q1''\<rparr>)
   = \<lparr>post = initial_state\<lparr>userInput := [], wsRef := Some OPEN, currentChatItemIdRef := JStr ''q1''\<rparr>,
      effects = [WsSend (JObj [(''action'', JStr ''submit_user_response''),
                               (''payload'', JObj [(''chat_item_id'', JStr ''q1''),
                                                   (''response'', JStr ''hi'')])])],
      thrown = None\<rparr>
   \<and> sendTextResponse (initial_state\<lparr>userInput := '' hi '', wsRef := Some OPEN\<rparr>)
   = \<lparr>post = initial_state\<lparr>userInput := '' hi '', wsRef := Some OPEN\<rparr>, effects = [], thrown = None\<rparr>"
  using sendTextResponse_guard
    [of "initial_state\<lparr>userInput := '' hi '', wsRef := Some OPEN, currentChatItemIdRef := JStr ''q1''\<rparr>"]
    sendTextResponse_guard [of "initial_state\<lparr>userInput := '' hi '', wsRef := Some OPEN\<rparr>"]
  by (simp add: trim_hi submit_user_response_def initial_state_def)

text \<open>
  C1: the stop handler is to stop all media tracks of the captured stream however the
  encoding and the send end. The code does not: line 145 stands after the \<^verbatim>\<open>await\<close>
  and the \<open>send\<close> with no \<^verbatim>\<open>try\<close> around them. On a socket that is still
  connecting (as after a reconnect, \<open>reconnect_is_connecting\<close>) \<open>send\<close> throws, and
  when the read of the blob fails the \<^verbatim>\<open>await\<close> throws; in both runs the handler
  ends before line 145 and the one live track stays live, while with no socket, or a
  closing or closed one, the same handler does stop it.
\<close>

theorem onstop_tracks_stay_live:
  "snd (onstop Loaded [Live] initial_state (initial_state\<lparr>wsRef := Some CONNECTING\<rparr>)) = [Live]
   \<and> thrown (fst (onstop Loaded [Live] initial_state (initial_state\<lparr>wsRef := Some CONNECTING\<rparr>)))
     = Some InvalidStateError
   \<and> onstop Failed [Live] initial_state (initial_state\<lparr>wsRef := Some OPEN\<rparr>)
     = (\<lparr>post = initial_state\<lparr>wsRef := Some OPEN\<rparr>, effects = [], thrown = Some ReaderErrorEvent\<rparr>,
        [Live])
   \<and> snd (onstop Loaded [Live] initial_state (initial_state\<lparr>wsRef := Some CLOSED\<rparr>)) = [Ended]
   \<and> snd (onstop Loaded [Live] initial_state initial_state) = [Ended]"
  by (simp add: onstop_Failed onstop_Loaded throws_def stop_tracks_def initial_state_def)

text \<open>
  C9: unlike the text submission, the audio submission has no guard. Once the blob is
  encoded, the stop handler calls \<open>send\<close> with the submit_user_response envelope
  whenever \<open>wsRef\<close> holds a socket, whatever its ready state \<open>rs\<close>, and with the
  correlation id as it is, null included; it skips the call only when \<open>wsRef\<close> is
  null. In a state with a socket that is not open, or with no correlation id,
  \<open>sendTextResponse\<close> sends nothing.
\<close>

theorem onstop_send_unguarded:
  "(wsRef s = Some rs \<longrightarrow>
      effects (fst (onstop Loaded stream s0 s)) =
        [WsSend (submit_user_response (currentChatItemIdRef s)
           (audio_prefix @ base64 (concat (map bytes (audioChunksRef s0)))))])
   \<and> (wsRef s = None \<longrightarrow> effects (fst (onstop Loaded stream s0 s)) = [])
   \<and> (wsRef s \<noteq> Some OPEN \<or> \<not> truthy (currentChatItemIdRef s) \<longrightarrow>
      effects (sendTextResponse s) = [])"
  by (auto simp add: onstop_Loaded_effects sendTextResponse_def returned_def)

text \<open>A closed socket and no correlation id: the audio is handed to \<open>send\<close>, a text is not.\<close>

theorem onstop_send_unguarded_witness:
  "effects (fst (onstop Loaded [Live]
      (initial_state\<lparr>audioChunksRef := [\<lparr>bytes = [0x4d, 0x61, 0x6e], btype = ''audio/webm''\<rparr>]\<rparr>)
      (initial_state\<lparr>userInput := ''hi'', wsRef := Some CLOSED\<rparr>)))
   = [WsSend (JObj [(''action'', JStr ''submit_user_response''),
                    (''payload'', JObj [(''chat_item_id'', JNull),
                                        (''response'', JStr ''data:audio/wav;base64,TWFu'')])])]
   \<and> effects (sendTextResponse (initial_state\<lparr>userInput := ''hi'', wsRef := Some CLOSED\<rparr>)) = []"
  using onstop_send_unguarded
    [of "initial_state\<lparr>userInput := ''hi'', wsRef := Some CLOSED\<rparr>" CLOSED "[Live]"
        "initial_state\<lparr>audioChunksRef := [\<lparr>bytes = [0x4d, 0x61, 0x6e], btype = ''audio/webm''\<rparr>]\<rparr>"]
  by (simp add: b64_digit_def b64_alphabet_def submit_user_response_def audio_prefix_def initial_state_def)

text \<open>
  C10: for the blob of type 'audio/wav' that the stop handler builds, \<open>blobToBase64\<close>
  strips exactly the prefix 'data:audio/wav;base64,' of the data URL and resolves with
  the base64 encoding of the blob; putting the prefix back gives the data URL again; and
  the response the handler hands to \<open>send\<close> is the prefix followed by the base64
  encoding of the recorded blob.
\<close>

theorem audio_response_roundtrip:
  "blobToBase64 Loaded (new_Blob parts ''audio/wav'')
     = Inr (base64 (bytes (new_Blob parts ''audio/wav'')))
   \<and> audio_prefix @ js_replace audio_prefix [] (readAsDataURL (new_Blob parts ''audio/wav''))
     = readAsDataURL (new_Blob parts ''audio/wav'')
   \<and> (wsRef s = Some rs \<longrightarrow>
      effects (fst (onstop Loaded stream s0 s)) =
        [WsSend (submit_user_response (currentChatItemIdRef s)
           (audio_prefix @ base64 (bytes (new_Blob (audioChunksRef s0) ''audio/wav''))))])"
proof -
  have b: "bytes (new_Blob ps ''audio/wav'') = concat (map bytes ps)" for ps
    by (simp add: new_Blob_def)
  show ?thesis
    by (simp add: b blobToBase64_Loaded readAsDataURL_wav js_replace_prefix onstop_Loaded_effects)
qed

text \<open>Two chunks of a recording, 'Ma' and 'n', on an open socket for the question q1.\<close>

theorem audio_response_roundtrip_witness:
  "blobToBase64 Loaded
     (new_Blob [\<lparr>bytes = [0x4d, 0x61], btype = []\<rparr>, \<lparr>bytes = [0x6e], btype = []\<rparr>] ''audio/wav'')
     = Inr ''TWFu''
   \<and> effects (fst (onstop Loaded [Live]
        (initial_state\<lparr>audioChunksRef := [\<lparr>bytes = [0x4d, 0x61], btype = []\<rparr>, \<lparr>bytes = [0x6e], btype = []\<rparr>]\<rparr>)
        (initial_state\<lparr>wsRef := Some OPEN, currentChatItemIdRef := JStr ''q1''\<rparr>)))
     = [WsSend (JObj [(''action'', JStr ''submit_user_response''),
                      (''payload'', JObj [(''chat_item_id'', JStr ''q1''),
                                          (''response'', JStr ''data:audio/wav;base64,TWFu'')])])]"
  using audio_response_roundtrip
    [of "[\<lparr>bytes = [0x4d, 0x61], btype = []\<rparr>, \<lparr>bytes = [0x6e], btype = []\<rparr>]"
        "initial_state\<lparr>wsRef := Some OPEN, currentChatItemIdRef := JStr ''q1''\<rparr>" OPEN "[Live]"
        "initial_state\<lparr>audioChunksRef := [\<lparr>bytes = [0x4d, 0x61], btype = []\<rparr>, \<lparr>bytes = [0x6e], btype = []\<rparr>]\<rparr>"]
  by (simp add: new_Blob_def b64_digit_def b64_alphabet_def submit_user_response_def audio_prefix_def)

end
